theory Spec2Isabelle
  imports Main
begin

section \<open>The SPI bus of a GreatFET board (host/greatfet/peripherals/spi_bus.py)\<close>

text \<open>
  The bus talks to the board through two vendor-request primitives,
  \<^verbatim>\<open>board.vendor_request_out(request, data=...)\<close> and
  \<^verbatim>\<open>board.vendor_request_in(request, length=...)\<close>. Both belong to the board
  class, which is an external collaborator of this module; they are taken as a parameter
  (a record of two functions over an abstract board state). Each of them either raises
  or returns, and may change the state of the board.
\<close>

datatype exn =
    ValueError string
  | IOError string
  | OutOfRange
  | TransportFailure string

datatype vendor_request = SPI_INIT | SPI_WRITE | SPI_READ

text \<open>One entry per call of a vendor-request primitive, in the order the calls are made.\<close>

datatype transport_call =
    Request_Out vendor_request "int list"
  | Request_In vendor_request int

record 'b transport =
  vendor_request_out :: "vendor_request \<Rightarrow> int list \<Rightarrow> 'b \<Rightarrow> (exn + unit) \<times> 'b"
  vendor_request_in :: "vendor_request \<Rightarrow> int \<Rightarrow> 'b \<Rightarrow> (exn + int list) \<times> 'b"

record ('b, 'd) SPIBus =
  board :: 'b
  buffer_size :: int
  devices :: "'d list"

text \<open>
  \<^verbatim>\<open>__init__(self, board, name='spi bus', buffer_size=255)\<close>: stores the board and
  the buffer size, starts with no devices and sends \<^verbatim>\<open>SPI_INIT\<close>. The name is
  accepted and not stored. The request is sent with no data.
\<close>

definition SPIBus_init ::
  "'b transport \<Rightarrow> 'b \<Rightarrow> string \<Rightarrow> int \<Rightarrow> (exn + ('b, 'd) SPIBus) \<times> transport_call list" where
  "SPIBus_init tr brd name bsize =
     (case vendor_request_out tr SPI_INIT [] brd of
        (Inl e, b1) \<Rightarrow> (Inl e, [Request_Out SPI_INIT []])
      | (Inr u, b1) \<Rightarrow>
          (Inr \<lparr>board = b1, buffer_size = bsize, devices = []\<rparr>, [Request_Out SPI_INIT []]))"

text \<open>\<^verbatim>\<open>attach_device(self, device)\<close>: \<^verbatim>\<open>self.devices.append(device)\<close>.\<close>

definition attach_device :: "('b, 'd) SPIBus \<Rightarrow> 'd \<Rightarrow> ('b, 'd) SPIBus" where
  "attach_device self device = self\<lparr>devices := devices self @ [device]\<rparr>"

text \<open>
  The message of the \<^verbatim>\<open>ValueError\<close> that \<^verbatim>\<open>transmit\<close> raises; the
  specification calls this condition CapacityExceeded.
\<close>

definition CapacityExceeded :: exn where
  "CapacityExceeded =
     ValueError ''Tried to send/receive more than the size of the receive buffer.''"

text \<open>
  What a call of \<^verbatim>\<open>transmit\<close> leaves behind: the value returned or the exception
  raised, the caller's \<^verbatim>\<open>data\<close> list as it is after the call (the list is
  extended in place), the bus with the board in its new state, and the vendor requests
  issued.
\<close>

record ('b, 'd) transmit_result =
  outcome :: "exn + int list"
  data_after :: "int list"
  bus_after :: "('b, 'd) SPIBus"
  calls :: "transport_call list"

text \<open>\<^verbatim>\<open>if receive_length is None: receive_length = len(data)\<close>\<close>

definition effective_receive_length :: "int list \<Rightarrow> int option \<Rightarrow> int" where
  "effective_receive_length data receive_length =
     (case receive_length of None \<Rightarrow> int (length data) | Some n \<Rightarrow> n)"

text \<open>
  \<^verbatim>\<open>if receive_length > len(data): data.extend([0] * (receive_length - len(data)))\<close>
\<close>

definition extend_data :: "int list \<Rightarrow> int \<Rightarrow> int list" where
  "extend_data data receive_length =
     (if receive_length > int (length data)
      then data @ replicate (nat (receive_length - int (length data))) 0
      else data)"

definition transmit ::
  "'b transport \<Rightarrow> ('b, 'd) SPIBus \<Rightarrow> int list \<Rightarrow> int option \<Rightarrow> ('b, 'd) transmit_result" where
  "transmit tr self data0 receive_length0 =
     (let receive_length = effective_receive_length data0 receive_length0;
          data = extend_data data0 receive_length
      in
        if int (length data) > buffer_size self then
          \<lparr>outcome = Inl CapacityExceeded, data_after = data, bus_after = self, calls = []\<rparr>
        else
          (case vendor_request_out tr SPI_WRITE data (board self) of
             (Inl e, b1) \<Rightarrow>
               \<lparr>outcome = Inl e, data_after = data, bus_after = self\<lparr>board := b1\<rparr>,
                calls = [Request_Out SPI_WRITE data]\<rparr>
           | (Inr u, b1) \<Rightarrow>
               if receive_length > 0 then
                 (case vendor_request_in tr SPI_READ receive_length b1 of
                    (Inl e, b2) \<Rightarrow>
                      \<lparr>outcome = Inl e, data_after = data, bus_after = self\<lparr>board := b2\<rparr>,
                       calls = [Request_Out SPI_WRITE data, Request_In SPI_READ receive_length]\<rparr>
                  | (Inr result, b2) \<Rightarrow>
                      \<lparr>outcome = Inr result, data_after = data, bus_after = self\<lparr>board := b2\<rparr>,
                       calls = [Request_Out SPI_WRITE data, Request_In SPI_READ receive_length]\<rparr>)
               else
                 \<lparr>outcome = Inr [], data_after = data, bus_after = self\<lparr>board := b1\<rparr>,
                  calls = [Request_Out SPI_WRITE data]\<rparr>))"

text \<open>
  The reconciled length of a request, in the words of the specification: the larger of
  the send length and the receive length.
\<close>

definition reconciled_length :: "int list \<Rightarrow> int option \<Rightarrow> int" where
  "reconciled_length data receive_length =
     max (int (length data)) (effective_receive_length data receive_length)"

text \<open>The payloads handed to the write request, in the order of the calls.\<close>

fun written_payloads :: "transport_call list \<Rightarrow> int list list" where
  "written_payloads [] = []"
| "written_payloads (Request_Out SPI_WRITE p # cs) = p # written_payloads cs"
| "written_payloads (c # cs) = written_payloads cs"

text \<open>The lengths asked of the read request, in the order of the calls.\<close>

fun requested_lengths :: "transport_call list \<Rightarrow> int list" where
  "requested_lengths [] = []"
| "requested_lengths (Request_In SPI_READ n # cs) = n # requested_lengths cs"
| "requested_lengths (c # cs) = requested_lengths cs"

subsection \<open>Simulated boards\<close>

text \<open>
  A loopback board for concrete runs: it remembers the last payload written and answers
  a read of \<open>n\<close> bytes with the first \<open>n\<close> bytes of it. A second board whose
  write request fails, and a third whose read request fails.
\<close>

definition loopback :: "int list transport" where
  "loopback =
     \<lparr>vendor_request_out = (\<lambda>req payload b. (Inr (), payload)),
      vendor_request_in = (\<lambda>req n b. (Inr (take (nat n) b), b))\<rparr>"

definition write_fails :: "int list transport" where
  "write_fails =
     \<lparr>vendor_request_out = (\<lambda>req payload b. (Inl (TransportFailure ''stall''), b)),
      vendor_request_in = (\<lambda>req n b. (Inr (take (nat n) b), b))\<rparr>"

definition read_fails :: "int list transport" where
  "read_fails =
     \<lparr>vendor_request_out = (\<lambda>req payload b. (Inr (), payload)),
      vendor_request_in = (\<lambda>req n b. (Inl (TransportFailure ''timeout''), b))\<rparr>"

definition bus255 :: "(int list, nat) SPIBus" where
  "bus255 = \<lparr>board = [], buffer_size = 255, devices = []\<rparr>"

definition bus2 :: "(int list, nat) SPIBus" where
  "bus2 = \<lparr>board = [], buffer_size = 2, devices = []\<rparr>"

section \<open>The firmware command (host/greatfet/commands/greatfet_firmware.py)\<close>

text \<open>
  \<^verbatim>\<open>MAX_FLASH_LENGTH = 0x100000\<close>, the maximum length to allow and the default of
  the \<^verbatim>\<open>--length\<close> option.
\<close>

definition MAX_FLASH_LENGTH :: int where
  "MAX_FLASH_LENGTH = 0x100000"

text \<open>
  The requests that reach the flash, in the order they are issued: an erase of a region,
  the read of one chunk and the write of one chunk, each at an offset.
\<close>

datatype flash_call =
    Flash_Erase int int
  | Flash_Read int int
  | Flash_Write int "int list"

text \<open>A progress event: bytes completed and the total number of bytes.\<close>

type_synonym progress = "int \<times> int"

text \<open>
  \<^verbatim>\<open>device.onboard_flash\<close> has the two methods the command calls,
  \<^verbatim>\<open>read(address, length, progress_callback=...)\<close> and
  \<^verbatim>\<open>write(data, address, erase_first=..., progress_callback=...)\<close>. A call
  raises or returns, leaves the flash in a new state, has issued some requests and has
  called the progress callback some number of times; \<open>None\<close> stands for a call that
  never comes back.
\<close>

type_synonym ('f, 'a) flash_run = "((exn + 'a) \<times> 'f \<times> flash_call list \<times> progress list) option"

record 'f onboard_flash =
  read_method :: "int \<Rightarrow> int \<Rightarrow> 'f \<Rightarrow> ('f, int list) flash_run"
  write_method :: "int list \<Rightarrow> int \<Rightarrow> bool \<Rightarrow> 'f \<Rightarrow> ('f, unit) flash_run"

text \<open>
  The files of the host: their contents by name, and the names that cannot be opened
  for writing. \<^verbatim>\<open>open(filename, 'wb')\<close> creates or empties the file;
  \<^verbatim>\<open>open(filename, 'rb')\<close> followed by \<^verbatim>\<open>f.read()\<close> gives the contents of
  an existing file. Both raise when the file cannot be opened.
\<close>

record filesystem =
  files :: "string \<rightharpoonup> int list"
  protected :: "string \<Rightarrow> bool"

definition open_wb :: "filesystem \<Rightarrow> string \<Rightarrow> exn + filesystem" where
  "open_wb fs filename =
     (if protected fs filename then Inl (IOError filename)
      else Inr (fs\<lparr>files := (files fs)(filename \<mapsto> [])\<rparr>))"

definition open_rb_read :: "filesystem \<Rightarrow> string \<Rightarrow> exn + int list" where
  "open_rb_read fs filename =
     (case files fs filename of None \<Rightarrow> Inl (IOError filename) | Some d \<Rightarrow> Inr d)"

definition tofile :: "filesystem \<Rightarrow> string \<Rightarrow> int list \<Rightarrow> filesystem" where
  "tofile fs filename flash_data = fs\<lparr>files := (files fs)(filename \<mapsto> flash_data)\<rparr>"

text \<open>
  What is handed to \<^verbatim>\<open>log_function\<close>: the two progress messages
  \<^verbatim>\<open>"Read {} bytes of {}."\<close> and \<^verbatim>\<open>"Written {} bytes of {}."\<close> (both with
  \<^verbatim>\<open>end='\r'\<close>) with their two numbers, and a plain line.
\<close>

datatype log_entry =
    Log_Read int int
  | Log_Written int int
  | Log_Line string

definition print_progress_read :: "progress \<Rightarrow> log_entry" where
  "print_progress_read ev = (case ev of (bytes_read, bytes_total) \<Rightarrow> Log_Read bytes_read bytes_total)"

definition print_progress_written :: "progress \<Rightarrow> log_entry" where
  "print_progress_written ev =
     (case ev of (bytes_written, bytes_total) \<Rightarrow> Log_Written bytes_written bytes_total)"

record 'f command_result =
  raised :: "exn option"
  fs_after :: filesystem
  flash_after :: 'f
  logged :: "log_entry list"
  flash_calls :: "flash_call list"

definition spi_flash_read ::
  "'f onboard_flash \<Rightarrow> filesystem \<Rightarrow> 'f \<Rightarrow> string \<Rightarrow> int \<Rightarrow> int \<Rightarrow> 'f command_result option" where
  "spi_flash_read onboard fs f filename address len =
     (case open_wb fs filename of
        Inl e \<Rightarrow>
          Some \<lparr>raised = Some e, fs_after = fs, flash_after = f, logged = [],
                flash_calls = []\<rparr>
      | Inr fs1 \<Rightarrow>
          (case read_method onboard address len f of
             None \<Rightarrow> None
           | Some (Inl e, f1, cs, events) \<Rightarrow>
               Some \<lparr>raised = Some e, fs_after = fs1, flash_after = f1,
                     logged = map print_progress_read events, flash_calls = cs\<rparr>
           | Some (Inr flash_data, f1, cs, events) \<Rightarrow>
               Some \<lparr>raised = None, fs_after = tofile fs1 filename flash_data,
                     flash_after = f1,
                     logged = map print_progress_read events @ [Log_Line []],
                     flash_calls = cs\<rparr>))"

definition spi_flash_write ::
  "'f onboard_flash \<Rightarrow> filesystem \<Rightarrow> 'f \<Rightarrow> string \<Rightarrow> int \<Rightarrow> 'f command_result option" where
  "spi_flash_write onboard fs f filename address =
     (case open_rb_read fs filename of
        Inl e \<Rightarrow>
          Some \<lparr>raised = Some e, fs_after = fs, flash_after = f, logged = [],
                flash_calls = []\<rparr>
      | Inr flash_data \<Rightarrow>
          (case write_method onboard flash_data address True f of
             None \<Rightarrow> None
           | Some (Inl e, f1, cs, events) \<Rightarrow>
               Some \<lparr>raised = Some e, fs_after = fs, flash_after = f1,
                     logged = map print_progress_written events, flash_calls = cs\<rparr>
           | Some (Inr u, f1, cs, events) \<Rightarrow>
               Some \<lparr>raised = None, fs_after = fs, flash_after = f1,
                     logged = map print_progress_written events @ [Log_Line []],
                     flash_calls = cs\<rparr>))"

section \<open>The flash programming layer\<close>

text \<open>
  Modelled from the spec: the class behind \<^verbatim>\<open>device.onboard_flash\<close>, which
  is missing from the sources. Its two methods follow sections 4.2, 6 and 7 of the
  specification, over a flash transport with an erase, a chunk read and a chunk write
  request, each of which raises or returns and may change the flash. The layer has two
  configuration constants: the maximum flash length and the largest chunk of the
  transport.
\<close>

record 'f flash_transport =
  erase_request :: "int \<Rightarrow> int \<Rightarrow> 'f \<Rightarrow> (exn + unit) \<times> 'f"
  read_request :: "int \<Rightarrow> int \<Rightarrow> 'f \<Rightarrow> (exn + int list) \<times> 'f"
  write_request :: "int \<Rightarrow> int list \<Rightarrow> 'f \<Rightarrow> (exn + unit) \<times> 'f"

record flash_config =
  max_flash_length :: int
  max_chunk :: int

text \<open>
  Modelled from the spec: the chunk loop of \<^verbatim>\<open>onboard_flash.read\<close>, which is
  missing from the sources. While \<open>remaining > 0\<close>: read
  \<open>min(remaining, max_chunk)\<close> bytes at \<open>offset\<close>, append them to the buffer,
  emit the progress event \<open>(length - remaining_after_chunk, length)\<close>, advance the
  offset and decrease \<open>remaining\<close>. A transport error ends the loop at once. With a
  chunk size that is not positive the loop does not end.
\<close>

partial_function (option) read_chunks ::
  "'f flash_transport \<Rightarrow> int \<Rightarrow> int \<Rightarrow> int \<Rightarrow> int \<Rightarrow> 'f \<Rightarrow> int list \<Rightarrow> flash_call list
     \<Rightarrow> progress list \<Rightarrow> ('f, int list) flash_run" where
  "read_chunks tr chunk_max bytes_total offset remaining f buf cs events =
     (if 0 < remaining then
        (case read_request tr offset (min remaining chunk_max) f of
           (Inl e, f1) \<Rightarrow>
             Some (Inl e, f1, cs @ [Flash_Read offset (min remaining chunk_max)], events)
         | (Inr chunk, f1) \<Rightarrow>
             read_chunks tr chunk_max bytes_total
               (offset + min remaining chunk_max) (remaining - min remaining chunk_max)
               f1 (buf @ chunk)
               (cs @ [Flash_Read offset (min remaining chunk_max)])
               (events @ [(bytes_total - (remaining - min remaining chunk_max), bytes_total)]))
      else Some (Inr buf, f, cs, events))"

declare read_chunks.simps [code]

text \<open>
  Modelled from the spec: the chunk loop of \<^verbatim>\<open>onboard_flash.write\<close>, which is
  missing from the sources. The data still to write is chunked as the read path chunks
  its length; each chunk is one write request, and a progress event follows each chunk
  that was written. A transport error ends the loop at once.
\<close>

partial_function (option) write_chunks ::
  "'f flash_transport \<Rightarrow> int \<Rightarrow> int \<Rightarrow> int \<Rightarrow> int list \<Rightarrow> 'f \<Rightarrow> flash_call list
     \<Rightarrow> progress list \<Rightarrow> ('f, unit) flash_run" where
  "write_chunks tr chunk_max bytes_total offset rest f cs events =
     (if 0 < int (length rest) then
        (case write_request tr offset (take (nat (min (int (length rest)) chunk_max)) rest) f of
           (Inl e, f1) \<Rightarrow>
             Some (Inl e, f1,
                   cs @ [Flash_Write offset (take (nat (min (int (length rest)) chunk_max)) rest)],
                   events)
         | (Inr u, f1) \<Rightarrow>
             write_chunks tr chunk_max bytes_total
               (offset + min (int (length rest)) chunk_max)
               (drop (nat (min (int (length rest)) chunk_max)) rest)
               f1
               (cs @ [Flash_Write offset (take (nat (min (int (length rest)) chunk_max)) rest)])
               (events @ [(bytes_total - (int (length rest) - min (int (length rest)) chunk_max), bytes_total)]))
      else Some (Inr (), f, cs, events))"

declare write_chunks.simps [code]

text \<open>
  Modelled from the spec: \<^verbatim>\<open>onboard_flash.read\<close>, which is missing from the
  sources. A request whose address plus length exceeds the configured maximum flash
  length is rejected before any transport call; a request of length zero is a no-op
  that emits the one progress event \<open>(0, 0)\<close>; any other request runs the chunk loop
  from \<open>offset = address\<close> and \<open>remaining = length\<close>.
\<close>

definition flash_read ::
  "'f flash_transport \<Rightarrow> flash_config \<Rightarrow> int \<Rightarrow> int \<Rightarrow> 'f \<Rightarrow> ('f, int list) flash_run" where
  "flash_read tr cfg address len f =
     (if max_flash_length cfg < address + len then Some (Inl OutOfRange, f, [], [])
      else if len = 0 then Some (Inr [], f, [], [(0, 0)])
      else read_chunks tr (max_chunk cfg) len address len f [] [] [])"

text \<open>
  Modelled from the spec: \<^verbatim>\<open>onboard_flash.write\<close>, which is missing from the
  sources. The range check and the zero-length case are those of the read. With the
  erase-first policy one erase of the target region is issued before any write chunk;
  when it fails the write does not proceed. Then the data is written chunk by chunk.
\<close>

definition flash_write ::
  "'f flash_transport \<Rightarrow> flash_config \<Rightarrow> int list \<Rightarrow> int \<Rightarrow> bool \<Rightarrow> 'f \<Rightarrow> ('f, unit) flash_run" where
  "flash_write tr cfg data address erase_first f =
     (if max_flash_length cfg < address + int (length data) then Some (Inl OutOfRange, f, [], [])
      else if int (length data) = 0 then Some (Inr (), f, [], [(0, 0)])
      else if erase_first then
        (case erase_request tr address (int (length data)) f of
           (Inl e, f1) \<Rightarrow> Some (Inl e, f1, [Flash_Erase address (int (length data))], [])
         | (Inr u, f1) \<Rightarrow>
             write_chunks tr (max_chunk cfg) (int (length data)) address data f1
               [Flash_Erase address (int (length data))] [])
      else write_chunks tr (max_chunk cfg) (int (length data)) address data f [] [])"

text \<open>The onboard flash of the device, made of the two modelled methods.\<close>

definition flash_layer :: "'f flash_transport \<Rightarrow> flash_config \<Rightarrow> 'f onboard_flash" where
  "flash_layer tr cfg = \<lparr>read_method = flash_read tr cfg, write_method = flash_write tr cfg\<rparr>"

fun is_write_chunk :: "flash_call \<Rightarrow> bool" where
  "is_write_chunk (Flash_Write offset chunk) = True"
| "is_write_chunk c = False"

subsection \<open>A simulated flash\<close>

text \<open>
  A flash for concrete runs, kept as the list of its bytes from address 0: an erase
  sets a region to \<open>0xFF\<close>, a write stores a chunk, a read returns a chunk. A second
  flash whose erase request fails.
\<close>

definition store_at :: "int list \<Rightarrow> int \<Rightarrow> int list \<Rightarrow> int list" where
  "store_at mem offset chunk =
     take (nat offset) mem @ chunk @ drop (nat offset + length chunk) mem"

definition sim_flash :: "int list flash_transport" where
  "sim_flash =
     \<lparr>erase_request = (\<lambda>address len mem.
         (Inr (), store_at mem address (replicate (nat len) 255))),
      read_request = (\<lambda>offset n mem. (Inr (take (nat n) (drop (nat offset) mem)), mem)),
      write_request = (\<lambda>offset chunk mem. (Inr (), store_at mem offset chunk))\<rparr>"

definition erase_fails :: "int list flash_transport" where
  "erase_fails =
     \<lparr>erase_request = (\<lambda>address len mem. (Inl (TransportFailure ''erase''), mem)),
      read_request = (\<lambda>offset n mem. (Inr (take (nat n) (drop (nat offset) mem)), mem)),
      write_request = (\<lambda>offset chunk mem. (Inr (), store_at mem offset chunk))\<rparr>"

definition cfg2 :: flash_config where
  "cfg2 = \<lparr>max_flash_length = MAX_FLASH_LENGTH, max_chunk = 2\<rparr>"

definition host_files :: filesystem where
  "host_files = \<lparr>files = [''fw.bin'' \<mapsto> [1, 2, 3]], protected = (\<lambda>name. False)\<rparr>"

section \<open>Properties of the bus\<close>

lemma length_extend_data:
  "int (length (extend_data data n)) = max (int (length data)) n"
  by (simp add: extend_data_def)

lemma length_extend_data_reconciled:
  "int (length (extend_data data (effective_receive_length data rl))) = reconciled_length data rl"
  by (simp add: length_extend_data reconciled_length_def)

text \<open>
  C8: \<^verbatim>\<open>attach_device\<close> appends the handle at the end of the registry of attached
  devices, whatever the handle and the registry are, and changes neither the buffer
  size nor the board of the bus. The operation has no failing branch.
\<close>

theorem attach_device_appends:
  "devices (attach_device self device) = devices self @ [device]
   \<and> buffer_size (attach_device self device) = buffer_size self
   \<and> board (attach_device self device) = board self"
  by (simp add: attach_device_def)


subsection \<open>The five ways a call of transmit can go\<close>

lemma transmit_rejected:
  assumes "buffer_size self < reconciled_length data rl"
  shows "transmit tr self data rl =
           \<lparr>outcome = Inl CapacityExceeded,
            data_after = extend_data data (effective_receive_length data rl),
            bus_after = self, calls = []\<rparr>"
  using assms
  by (simp add: transmit_def Let_def length_extend_data_reconciled)

lemma transmit_write_raises:
  assumes "reconciled_length data rl \<le> buffer_size self"
    and "vendor_request_out tr SPI_WRITE
           (extend_data data (effective_receive_length data rl)) (board self) = (Inl e, b1)"
  shows "transmit tr self data rl =
           \<lparr>outcome = Inl e,
            data_after = extend_data data (effective_receive_length data rl),
            bus_after = self\<lparr>board := b1\<rparr>,
            calls = [Request_Out SPI_WRITE
                       (extend_data data (effective_receive_length data rl))]\<rparr>"
  using assms
  by (simp add: transmit_def Let_def length_extend_data_reconciled)

lemma transmit_without_read:
  assumes "reconciled_length data rl \<le> buffer_size self"
    and "vendor_request_out tr SPI_WRITE
           (extend_data data (effective_receive_length data rl)) (board self) = (Inr u, b1)"
    and "effective_receive_length data rl \<le> 0"
  shows "transmit tr self data rl =
           \<lparr>outcome = Inr [],
            data_after = extend_data data (effective_receive_length data rl),
            bus_after = self\<lparr>board := b1\<rparr>,
            calls = [Request_Out SPI_WRITE
                       (extend_data data (effective_receive_length data rl))]\<rparr>"
  using assms
  by (simp add: transmit_def Let_def length_extend_data_reconciled)

lemma transmit_with_read:
  assumes "reconciled_length data rl \<le> buffer_size self"
    and "vendor_request_out tr SPI_WRITE
           (extend_data data (effective_receive_length data rl)) (board self) = (Inr u, b1)"
    and "0 < effective_receive_length data rl"
    and "vendor_request_in tr SPI_READ (effective_receive_length data rl) b1 = (res, b2)"
  shows "transmit tr self data rl =
           \<lparr>outcome = res,
            data_after = extend_data data (effective_receive_length data rl),
            bus_after = self\<lparr>board := b2\<rparr>,
            calls = [Request_Out SPI_WRITE
                       (extend_data data (effective_receive_length data rl)),
                     Request_In SPI_READ (effective_receive_length data rl)]\<rparr>"
  using assms
  by (cases res) (simp_all add: transmit_def Let_def length_extend_data_reconciled)

lemma transmit_data_after:
  "data_after (transmit tr self data rl) =
     extend_data data (effective_receive_length data rl)"
  by (simp add: transmit_def Let_def split: prod.splits sum.splits)

text \<open>
  The vendor requests of a call, in one equation: none when the request is rejected,
  otherwise the write, and after it the read when the write returned and a positive
  number of bytes is to be received.
\<close>

lemma transmit_calls:
  "calls (transmit tr self data rl) =
     (if buffer_size self < reconciled_length data rl then []
      else Request_Out SPI_WRITE (extend_data data (effective_receive_length data rl)) #
           (if isl (fst (vendor_request_out tr SPI_WRITE
                      (extend_data data (effective_receive_length data rl)) (board self)))
               \<or> effective_receive_length data rl \<le> 0
            then []
            else [Request_In SPI_READ (effective_receive_length data rl)]))"
  by (simp add: transmit_def Let_def length_extend_data_reconciled
           split: prod.splits sum.splits)

text \<open>
  C1: when the reconciled length of a request (the larger of the send length and the
  receive length) is above the buffer size of the bus, \<^verbatim>\<open>transmit\<close> raises the
  capacity error and has issued no vendor request at all, neither the write nor the
  read; the board is as it was.
\<close>

theorem transmit_capacity_exceeded:
  assumes "buffer_size self < reconciled_length data rl"
  shows "outcome (transmit tr self data rl) = Inl CapacityExceeded
         \<and> calls (transmit tr self data rl) = []
         \<and> bus_after (transmit tr self data rl) = self"
  by (simp add: transmit_rejected [OF assms])

theorem transmit_capacity_exceeded_witness:
  "buffer_size bus2 < reconciled_length [1, 2, 3] None
   \<and> outcome (transmit loopback bus2 [1, 2, 3] None) = Inl CapacityExceeded
   \<and> calls (transmit loopback bus2 [1, 2, 3] None) = []
   \<and> bus_after (transmit loopback bus2 [1, 2, 3] None) = bus2"
proof -
  have h: "buffer_size bus2 < reconciled_length [1, 2, 3] None"
    by (simp add: bus2_def reconciled_length_def effective_receive_length_def)
  from transmit_capacity_exceeded [OF h, of loopback] h show ?thesis by simp
qed



text \<open>
  C3: when the receive length \<open>n\<close> is larger than the send length, the payload of
  the write request is the bytes to send followed by \<open>n - len(data)\<close> zero bytes.
  A request that fits the buffer has exactly this one write; a request that does not
  fit has none.
\<close>

theorem transmit_payload_zero_padded:
  assumes "int (length data) < n"
  shows "written_payloads (calls (transmit tr self data (Some n))) =
           (if n \<le> buffer_size self
            then [data @ replicate (nat (n - int (length data))) 0]
            else [])"
  using assms
  by (simp add: transmit_calls reconciled_length_def effective_receive_length_def
        extend_data_def)

theorem transmit_payload_zero_padded_witness:
  "int (length [7, 8 :: int]) < 4 \<and> 4 \<le> buffer_size bus255
   \<and> written_payloads (calls (transmit loopback bus255 [7, 8] (Some 4))) = [[7, 8, 0, 0]]"
proof -
  have h: "int (length [7, 8 :: int]) < 4" by simp
  have r: "replicate (nat (4 - int (length [7, 8 :: int]))) (0::int) = [0, 0]"
    by (simp add: numeral_2_eq_2)
  from transmit_payload_zero_padded [OF h, of loopback bus255] h r show ?thesis
    by (simp add: bus255_def)
qed

text \<open>
  C9: when the receive length \<open>n\<close> is larger than the length of \<^verbatim>\<open>data\<close>,
  the caller's list is extended in place with zero bytes up to \<open>n\<close> elements. The
  extension is done before the capacity check: a call that raises the capacity error
  has changed the caller's list all the same.
\<close>

theorem transmit_extends_callers_data:
  assumes "int (length data) < n"
  shows "data_after (transmit tr self data (Some n)) =
           data @ replicate (nat (n - int (length data))) 0
         \<and> int (length (data_after (transmit tr self data (Some n)))) = n
         \<and> data_after (transmit tr self data (Some n)) \<noteq> data
         \<and> (buffer_size self < n \<longrightarrow>
              outcome (transmit tr self data (Some n)) = Inl CapacityExceeded
              \<and> data_after (transmit tr self data (Some n)) \<noteq> data)"
proof -
  have d: "data_after (transmit tr self data (Some n)) =
             data @ replicate (nat (n - int (length data))) 0"
    using assms
    by (simp add: transmit_data_after effective_receive_length_def extend_data_def)
  have l: "int (length (data @ replicate (nat (n - int (length data))) (0::int))) = n"
    using assms by simp
  have ne: "data @ replicate (nat (n - int (length data))) (0::int) \<noteq> data"
    using assms by simp
  have rej: "buffer_size self < n \<Longrightarrow>
               outcome (transmit tr self data (Some n)) = Inl CapacityExceeded"
    using assms
    by (simp add: transmit_rejected reconciled_length_def effective_receive_length_def)
  from d l ne rej show ?thesis by simp
qed

theorem transmit_extends_callers_data_witness:
  "int (length [9 :: int]) < 3 \<and> buffer_size bus2 < 3
   \<and> data_after (transmit loopback bus2 [9] (Some 3)) = [9, 0, 0]
   \<and> outcome (transmit loopback bus2 [9] (Some 3)) = Inl CapacityExceeded"
proof -
  have h: "int (length [9 :: int]) < 3" by simp
  have r: "replicate (nat (3 - int (length [9 :: int]))) (0::int) = [0, 0]"
    by (simp add: numeral_2_eq_2)
  from transmit_extends_callers_data [OF h, of loopback bus2] h r show ?thesis
    by (simp add: bus2_def)
qed

text \<open>
  C10: the capacity check is a strict comparison. A request whose reconciled length
  equals the buffer size is accepted and reaches the write request; a request issues no
  vendor request exactly when its reconciled length is strictly above the buffer size,
  and then it raises the capacity error.
\<close>

theorem transmit_capacity_check_strict:
  "(reconciled_length data rl = buffer_size self \<longrightarrow>
      calls (transmit tr self data rl) \<noteq> []
      \<and> hd (calls (transmit tr self data rl)) =
          Request_Out SPI_WRITE (extend_data data (effective_receive_length data rl)))
   \<and> (calls (transmit tr self data rl) = [] \<longleftrightarrow>
        buffer_size self < reconciled_length data rl)
   \<and> (buffer_size self < reconciled_length data rl \<longrightarrow>
        outcome (transmit tr self data rl) = Inl CapacityExceeded)"
  by (simp add: transmit_calls transmit_rejected)

theorem transmit_capacity_check_strict_witness:
  "reconciled_length [1, 2] None = buffer_size bus2
   \<and> calls (transmit loopback bus2 [1, 2] None) =
       [Request_Out SPI_WRITE [1, 2], Request_In SPI_READ 2]
   \<and> outcome (transmit loopback bus2 [1, 2] None) = Inr [1, 2]
   \<and> buffer_size bus2 < reconciled_length [1, 2, 3] None
   \<and> calls (transmit loopback bus2 [1, 2, 3] None) = []
   \<and> outcome (transmit loopback bus2 [1, 2, 3] None) = Inl CapacityExceeded"
proof -
  have h1: "reconciled_length [1, 2] None = buffer_size bus2"
    by (simp add: bus2_def reconciled_length_def effective_receive_length_def)
  have h2: "buffer_size bus2 < reconciled_length [1, 2, 3] None"
    by (simp add: bus2_def reconciled_length_def effective_receive_length_def)
  have run: "transmit loopback bus2 [1, 2] None =
               \<lparr>outcome = Inr [1, 2], data_after = [1, 2],
                bus_after = bus2\<lparr>board := [1, 2]\<rparr>,
                calls = [Request_Out SPI_WRITE [1, 2], Request_In SPI_READ 2]\<rparr>"
    by (simp add: transmit_def Let_def loopback_def bus2_def effective_receive_length_def
          extend_data_def numeral_2_eq_2)
  from transmit_capacity_check_strict [of "[1, 2]" None bus2 loopback]
       transmit_capacity_check_strict [of "[1, 2, 3]" None bus2 loopback]
       h1 h2 run
  show ?thesis by simp
qed



text \<open>
  C4: a call that returns has issued exactly the write request with the full reconciled
  payload and, when the receive length is positive, after it exactly one read request
  for that many bytes; nothing else. An exception of the write request is the exception
  of the call, and the write is then the only request issued: no second attempt and no
  read. An exception of the read request is the exception of the call, after the one
  write and the one read.
\<close>

theorem transmit_call_sequence:
  "(outcome (transmit tr self data rl) = Inr result \<longrightarrow>
      calls (transmit tr self data rl) =
        Request_Out SPI_WRITE (extend_data data (effective_receive_length data rl)) #
        (if 0 < effective_receive_length data rl
         then [Request_In SPI_READ (effective_receive_length data rl)] else [])
      \<and> int (length (extend_data data (effective_receive_length data rl))) =
          reconciled_length data rl)
   \<and> (reconciled_length data rl \<le> buffer_size self \<longrightarrow>
      vendor_request_out tr SPI_WRITE
        (extend_data data (effective_receive_length data rl)) (board self) = (Inl e, b1) \<longrightarrow>
      outcome (transmit tr self data rl) = Inl e
      \<and> calls (transmit tr self data rl) =
          [Request_Out SPI_WRITE (extend_data data (effective_receive_length data rl))])
   \<and> (reconciled_length data rl \<le> buffer_size self \<longrightarrow>
      vendor_request_out tr SPI_WRITE
        (extend_data data (effective_receive_length data rl)) (board self) = (Inr u, b1) \<longrightarrow>
      0 < effective_receive_length data rl \<longrightarrow>
      vendor_request_in tr SPI_READ (effective_receive_length data rl) b1 = (Inl e, b2) \<longrightarrow>
      outcome (transmit tr self data rl) = Inl e
      \<and> calls (transmit tr self data rl) =
          [Request_Out SPI_WRITE (extend_data data (effective_receive_length data rl)),
           Request_In SPI_READ (effective_receive_length data rl)])"
proof (intro conjI impI)
  assume ok: "outcome (transmit tr self data rl) = Inr result"
  have acc: "reconciled_length data rl \<le> buffer_size self"
  proof (rule ccontr)
    assume "\<not> reconciled_length data rl \<le> buffer_size self"
    then have "outcome (transmit tr self data rl) = Inl CapacityExceeded"
      by (simp add: transmit_rejected)
    with ok show False by simp
  qed
  obtain w b where w: "vendor_request_out tr SPI_WRITE
      (extend_data data (effective_receive_length data rl)) (board self) = (w, b)"
    by (cases "vendor_request_out tr SPI_WRITE
      (extend_data data (effective_receive_length data rl)) (board self)")
  have "\<not> isl w"
  proof
    assume "isl w"
    then obtain x where "w = Inl x" by (cases w) simp_all
    with w acc have "outcome (transmit tr self data rl) = Inl x"
      by (simp add: transmit_write_raises)
    with ok show False by simp
  qed
  with w acc
  show "calls (transmit tr self data rl) =
        Request_Out SPI_WRITE (extend_data data (effective_receive_length data rl)) #
        (if 0 < effective_receive_length data rl
         then [Request_In SPI_READ (effective_receive_length data rl)] else [])"
    by (simp add: transmit_calls)
next
  show "int (length (extend_data data (effective_receive_length data rl))) =
          reconciled_length data rl"
    by (rule length_extend_data_reconciled)
next
  assume "reconciled_length data rl \<le> buffer_size self"
    and "vendor_request_out tr SPI_WRITE
        (extend_data data (effective_receive_length data rl)) (board self) = (Inl e, b1)"
  then show "outcome (transmit tr self data rl) = Inl e"
    by (simp add: transmit_write_raises)
next
  assume "reconciled_length data rl \<le> buffer_size self"
    and "vendor_request_out tr SPI_WRITE
        (extend_data data (effective_receive_length data rl)) (board self) = (Inl e, b1)"
  then show "calls (transmit tr self data rl) =
          [Request_Out SPI_WRITE (extend_data data (effective_receive_length data rl))]"
    by (simp add: transmit_write_raises)
next
  assume "reconciled_length data rl \<le> buffer_size self"
    and "vendor_request_out tr SPI_WRITE
        (extend_data data (effective_receive_length data rl)) (board self) = (Inr u, b1)"
    and "0 < effective_receive_length data rl"
    and "vendor_request_in tr SPI_READ (effective_receive_length data rl) b1 = (Inl e, b2)"
  then show "outcome (transmit tr self data rl) = Inl e"
    by (simp add: transmit_with_read)
next
  assume "reconciled_length data rl \<le> buffer_size self"
    and "vendor_request_out tr SPI_WRITE
        (extend_data data (effective_receive_length data rl)) (board self) = (Inr u, b1)"
    and "0 < effective_receive_length data rl"
    and "vendor_request_in tr SPI_READ (effective_receive_length data rl) b1 = (Inl e, b2)"
  then show "calls (transmit tr self data rl) =
          [Request_Out SPI_WRITE (extend_data data (effective_receive_length data rl)),
           Request_In SPI_READ (effective_receive_length data rl)]"
    by (simp add: transmit_with_read)
qed



theorem transmit_call_sequence_witness:
  "outcome (transmit loopback bus255 [1, 2, 3] (Some 2)) = Inr [1, 2]
   \<and> calls (transmit loopback bus255 [1, 2, 3] (Some 2)) =
       [Request_Out SPI_WRITE [1, 2, 3], Request_In SPI_READ 2]
   \<and> vendor_request_out write_fails SPI_WRITE [5] (board bus255) =
       (Inl (TransportFailure ''stall''), [])
   \<and> outcome (transmit write_fails bus255 [5] None) = Inl (TransportFailure ''stall'')
   \<and> calls (transmit write_fails bus255 [5] None) = [Request_Out SPI_WRITE [5]]
   \<and> vendor_request_in read_fails SPI_READ 1 [5] = (Inl (TransportFailure ''timeout''), [5])
   \<and> outcome (transmit read_fails bus255 [5] None) = Inl (TransportFailure ''timeout'')
   \<and> calls (transmit read_fails bus255 [5] None) =
       [Request_Out SPI_WRITE [5], Request_In SPI_READ 1]"
proof -
  have ok: "outcome (transmit loopback bus255 [1, 2, 3] (Some 2)) = Inr [1, 2]"
    by (simp add: transmit_def Let_def loopback_def bus255_def effective_receive_length_def
          extend_data_def numeral_2_eq_2)
  have e1: "effective_receive_length [1, 2, 3] (Some 2) = 2"
    and x1: "extend_data [1, 2, 3] 2 = [1, 2, 3]"
    by (simp_all add: effective_receive_length_def extend_data_def)
  have e2: "effective_receive_length [5] None = 1"
    and x2: "extend_data [5] 1 = [5]"
    and r2: "reconciled_length [5] None \<le> buffer_size bus255"
    by (simp_all add: effective_receive_length_def extend_data_def reconciled_length_def
          bus255_def)
  have w: "vendor_request_out write_fails SPI_WRITE [5] (board bus255) =
             (Inl (TransportFailure ''stall''), [])"
    by (simp add: write_fails_def bus255_def)
  have w': "vendor_request_out read_fails SPI_WRITE [5] (board bus255) = (Inr (), [5])"
    by (simp add: read_fails_def bus255_def)
  have r: "vendor_request_in read_fails SPI_READ 1 [5] =
             (Inl (TransportFailure ''timeout''), [5])"
    by (simp add: read_fails_def)
  from transmit_call_sequence
         [where tr = loopback and self = bus255 and data = "[1, 2, 3]" and rl = "Some 2"
            and result = "[1, 2]"]
       ok e1 x1
  have a: "calls (transmit loopback bus255 [1, 2, 3] (Some 2)) =
             [Request_Out SPI_WRITE [1, 2, 3], Request_In SPI_READ 2]"
    by simp
  from transmit_call_sequence
         [where tr = write_fails and self = bus255 and data = "[5]" and rl = None
            and e = "TransportFailure ''stall''" and ?b1.0 = "[]"]
       e2 x2 r2 w
  have b: "outcome (transmit write_fails bus255 [5] None) = Inl (TransportFailure ''stall'')
           \<and> calls (transmit write_fails bus255 [5] None) = [Request_Out SPI_WRITE [5]]"
    by simp
  from transmit_call_sequence
         [where tr = read_fails and self = bus255 and data = "[5]" and rl = None
            and e = "TransportFailure ''timeout''" and ?b1.0 = "[5]" and u = "()"
            and ?b2.0 = "[5]"]
       e2 x2 r2 w' r
  have c: "outcome (transmit read_fails bus255 [5] None) = Inl (TransportFailure ''timeout'')
           \<and> calls (transmit read_fails bus255 [5] None) =
               [Request_Out SPI_WRITE [5], Request_In SPI_READ 1]"
    by simp
  from ok a w b r c show ?thesis by simp
qed

text \<open>
  C2, as stated, fails for a send buffer longer than the buffer size: with a buffer size
  of 2, three bytes to send and a receive length of 0 (which does not exceed the
  buffer size), the call raises the capacity error instead of returning the empty
  sequence, and issues no request.
\<close>

theorem transmit_long_send_counterexample:
  "0 \<le> buffer_size bus2
   \<and> outcome (transmit loopback bus2 [1, 2, 3] (Some 0)) = Inl CapacityExceeded
   \<and> outcome (transmit loopback bus2 [1, 2, 3] (Some 0)) \<noteq> Inr []
   \<and> calls (transmit loopback bus2 [1, 2, 3] (Some 0)) = []"
  by (simp add: transmit_def Let_def bus2_def effective_receive_length_def extend_data_def)

text \<open>
  C2, amended: when the send length and the receive length \<open>n\<close> are both within the
  buffer size and the write request returns, then for \<open>n > 0\<close> the call returns
  what the one read request for \<open>n\<close> bytes returned, which is a sequence of exactly
  \<open>n\<close> bytes when the board answers with as many bytes as were asked; for
  \<open>n \<le> 0\<close> the call returns the empty sequence and issues no read request.
\<close>

theorem transmit_returns_requested_bytes:
  assumes "int (length data) \<le> buffer_size self" and "n \<le> buffer_size self"
    and "vendor_request_out tr SPI_WRITE (extend_data data n) (board self) = (Inr u, b1)"
  shows "(0 < n \<longrightarrow>
            vendor_request_in tr SPI_READ n b1 = (Inr bytes, b2) \<longrightarrow>
            int (length bytes) = n \<longrightarrow>
            outcome (transmit tr self data (Some n)) = Inr bytes
            \<and> int (length (projr (outcome (transmit tr self data (Some n))))) = n)
         \<and> (n \<le> 0 \<longrightarrow>
            outcome (transmit tr self data (Some n)) = Inr []
            \<and> requested_lengths (calls (transmit tr self data (Some n))) = []
            \<and> calls (transmit tr self data (Some n)) =
                [Request_Out SPI_WRITE data])"
proof -
  have e: "effective_receive_length data (Some n) = n"
    by (simp add: effective_receive_length_def)
  have acc: "reconciled_length data (Some n) \<le> buffer_size self"
    using assms(1,2) by (simp add: reconciled_length_def e)
  have w: "vendor_request_out tr SPI_WRITE
             (extend_data data (effective_receive_length data (Some n))) (board self) =
             (Inr u, b1)"
    using assms(3) by (simp add: e)
  have pos: "outcome (transmit tr self data (Some n)) = Inr bytes"
    if "0 < n" and "vendor_request_in tr SPI_READ n b1 = (Inr bytes, b2)"
    using transmit_with_read [OF acc w, of "Inr bytes" b2] that by (simp add: e)
  have zero: "transmit tr self data (Some n) =
                \<lparr>outcome = Inr [], data_after = extend_data data n,
                 bus_after = self\<lparr>board := b1\<rparr>,
                 calls = [Request_Out SPI_WRITE (extend_data data n)]\<rparr>"
    if "n \<le> 0"
    using transmit_without_read [OF acc w] that by (simp add: e)
  have x: "extend_data data n = data" if "n \<le> 0"
    using that by (simp add: extend_data_def)
  from pos zero x show ?thesis by simp
qed

theorem transmit_returns_requested_bytes_witness:
  "int (length [1, 2, 3 :: int]) \<le> buffer_size bus255 \<and> 2 \<le> buffer_size bus255
   \<and> vendor_request_out loopback SPI_WRITE (extend_data [1, 2, 3] 2) (board bus255) =
       (Inr (), [1, 2, 3])
   \<and> vendor_request_in loopback SPI_READ 2 [1, 2, 3] = (Inr [1, 2], [1, 2, 3])
   \<and> outcome (transmit loopback bus255 [1, 2, 3] (Some 2)) = Inr [1, 2]
   \<and> vendor_request_out loopback SPI_WRITE (extend_data [1, 2, 3] 0) (board bus255) =
       (Inr (), [1, 2, 3])
   \<and> outcome (transmit loopback bus255 [1, 2, 3] (Some 0)) = Inr []
   \<and> calls (transmit loopback bus255 [1, 2, 3] (Some 0)) =
       [Request_Out SPI_WRITE [1, 2, 3]]"
proof -
  have h1: "int (length [1, 2, 3 :: int]) \<le> buffer_size bus255"
    and h2: "2 \<le> buffer_size bus255" and h0: "0 \<le> buffer_size bus255"
    by (simp_all add: bus255_def)
  have w2: "vendor_request_out loopback SPI_WRITE (extend_data [1, 2, 3] 2) (board bus255) =
              (Inr (), [1, 2, 3])"
    and w0: "vendor_request_out loopback SPI_WRITE (extend_data [1, 2, 3] 0) (board bus255) =
              (Inr (), [1, 2, 3])"
    by (simp_all add: loopback_def extend_data_def)
  have r: "vendor_request_in loopback SPI_READ 2 [1, 2, 3] = (Inr [1, 2], [1, 2, 3])"
    by (simp add: loopback_def numeral_2_eq_2)
  from transmit_returns_requested_bytes [OF h1 h2 w2, of "[1, 2]" "[1, 2, 3]"] r
  have a: "outcome (transmit loopback bus255 [1, 2, 3] (Some 2)) = Inr [1, 2]"
    by simp
  from transmit_returns_requested_bytes [OF h1 h0 w0]
  have b: "outcome (transmit loopback bus255 [1, 2, 3] (Some 0)) = Inr []
           \<and> calls (transmit loopback bus255 [1, 2, 3] (Some 0)) =
               [Request_Out SPI_WRITE [1, 2, 3]]"
    by simp
  from h1 h2 w2 r a w0 b show ?thesis by simp
qed



text \<open>
  C5, as stated, fails when the receive length is smaller than the send length: three
  bytes to send with a receive length of 1 are accepted, the write request carries
  three bytes and the read request asks for one.
\<close>

theorem transmit_short_receive_counterexample:
  "outcome (transmit loopback bus255 [1, 2, 3] (Some 1)) = Inr [1]
   \<and> calls (transmit loopback bus255 [1, 2, 3] (Some 1)) =
       [Request_Out SPI_WRITE [1, 2, 3], Request_In SPI_READ 1]
   \<and> written_payloads (calls (transmit loopback bus255 [1, 2, 3] (Some 1))) = [[1, 2, 3]]
   \<and> requested_lengths (calls (transmit loopback bus255 [1, 2, 3] (Some 1))) = [1]
   \<and> int (length [1, 2, 3 :: int]) \<noteq> 1"
  by (simp add: transmit_def Let_def bus255_def loopback_def effective_receive_length_def
        extend_data_def)

text \<open>
  C5, amended: an accepted request issues one write whose payload has the reconciled
  length, the larger of the send length and the receive length. A read request, when
  one is issued, asks for the receive length, which is positive and never more than the
  number of bytes written; the two numbers are equal when the receive length is at
  least the send length (the default receive length included), and the read asks for
  fewer bytes than were written when the receive length is smaller than the send
  length.
\<close>

theorem transmit_written_and_requested:
  assumes "reconciled_length data rl \<le> buffer_size self"
  shows "written_payloads (calls (transmit tr self data rl)) =
           [extend_data data (effective_receive_length data rl)]
         \<and> int (length (extend_data data (effective_receive_length data rl))) =
             reconciled_length data rl
         \<and> (\<forall>n \<in> set (requested_lengths (calls (transmit tr self data rl))).
              n = effective_receive_length data rl \<and> 0 < n
              \<and> n \<le> int (length (extend_data data (effective_receive_length data rl)))
              \<and> (int (length data) \<le> effective_receive_length data rl \<longrightarrow>
                   n = int (length (extend_data data (effective_receive_length data rl))))
              \<and> (effective_receive_length data rl < int (length data) \<longrightarrow>
                   n < int (length (extend_data data (effective_receive_length data rl)))))
         \<and> length (requested_lengths (calls (transmit tr self data rl))) \<le> 1"
proof -
  have acc: "\<not> buffer_size self < reconciled_length data rl"
    using assms by simp
  have len: "int (length (extend_data data (effective_receive_length data rl))) =
               max (int (length data)) (effective_receive_length data rl)"
    by (rule length_extend_data)
  have c: "calls (transmit tr self data rl) =
             Request_Out SPI_WRITE (extend_data data (effective_receive_length data rl)) #
             (if isl (fst (vendor_request_out tr SPI_WRITE
                        (extend_data data (effective_receive_length data rl)) (board self)))
                 \<or> effective_receive_length data rl \<le> 0
              then []
              else [Request_In SPI_READ (effective_receive_length data rl)])"
    by (simp add: transmit_calls acc)
  show ?thesis
    unfolding c by (auto simp add: len reconciled_length_def)
qed

theorem transmit_written_and_requested_witness:
  "reconciled_length [1, 2] (Some 4) \<le> buffer_size bus255
   \<and> written_payloads (calls (transmit loopback bus255 [1, 2] (Some 4))) = [[1, 2, 0, 0]]
   \<and> requested_lengths (calls (transmit loopback bus255 [1, 2] (Some 4))) = [4]
   \<and> int (length (extend_data [1, 2] (effective_receive_length [1, 2] (Some 4)))) = 4"
proof -
  have h: "reconciled_length [1, 2] (Some 4) \<le> buffer_size bus255"
    by (simp add: reconciled_length_def effective_receive_length_def bus255_def)
  have e: "effective_receive_length [1, 2] (Some 4) = 4"
    by (simp add: effective_receive_length_def)
  have x: "extend_data [1, 2] 4 = [1, 2, 0, 0]"
    by (simp add: extend_data_def numeral_2_eq_2)
  have c: "requested_lengths (calls (transmit loopback bus255 [1, 2] (Some 4))) = [4]"
    by (simp add: transmit_def Let_def bus255_def loopback_def e x)
  from transmit_written_and_requested [OF h, of loopback] h e x c show ?thesis
    by simp
qed



section \<open>Properties of the flash commands\<close>

text \<open>
  With a positive chunk size the write loop comes back, whatever the transport does: it
  adds write requests, and only write requests, to the requests issued so far.
\<close>

lemma write_chunks_returns:
  assumes "0 < chunk_max"
  shows "\<exists>r f' ws events'.
           write_chunks tr chunk_max bytes_total offset rest f cs events =
             Some (r, f', cs @ ws, events')
           \<and> (\<forall>c \<in> set ws. is_write_chunk c)"
proof (induction "length rest" arbitrary: rest offset f cs events rule: less_induct)
  case less
  show ?case
  proof (cases "rest = []")
    case True
    then show ?thesis by (subst write_chunks.simps) simp
  next
    case False
    let ?n = "min (int (length rest)) chunk_max"
    let ?c = "Flash_Write offset (take (nat ?n) rest)"
    let ?ev = "(bytes_total - (int (length rest) - ?n), bytes_total)"
    from False assms have "0 < ?n" by simp
    then have shorter: "length (drop (nat ?n) rest) < length rest"
      using False by simp
    obtain w f1 where w: "write_request tr offset (take (nat ?n) rest) f = (w, f1)"
      by (cases "write_request tr offset (take (nat ?n) rest) f")
    show ?thesis
    proof (cases w)
      case (Inl e)
      with w False
      have "write_chunks tr chunk_max bytes_total offset rest f cs events =
              Some (Inl e, f1, cs @ [?c], events)"
        by (subst write_chunks.simps) simp
      then show ?thesis by simp
    next
      case (Inr u)
      with w False
      have step: "write_chunks tr chunk_max bytes_total offset rest f cs events =
                    write_chunks tr chunk_max bytes_total (offset + ?n) (drop (nat ?n) rest) f1
                      (cs @ [?c]) (events @ [?ev])"
        by (subst write_chunks.simps) simp
      from less [OF shorter, of "offset + ?n" f1 "cs @ [?c]" "events @ [?ev]"]
      obtain r f' ws events' where
        "write_chunks tr chunk_max bytes_total (offset + ?n) (drop (nat ?n) rest) f1
           (cs @ [?c]) (events @ [?ev]) = Some (r, f', (cs @ [?c]) @ ws, events')"
        and "\<forall>c \<in> set ws. is_write_chunk c"
        by blast
      with step show ?thesis
        by (intro exI [of _ r] exI [of _ f'] exI [of _ "?c # ws"] exI [of _ events']) simp
    qed
  qed
qed

text \<open>
  The two commands hand their arguments to the methods of the onboard flash as they
  are: once the file is open, the requests of a command are the requests of the
  method, and the exception of the method, if any, is the exception of the command.
  Neither command compares the address or the length with \<^verbatim>\<open>MAX_FLASH_LENGTH\<close>.
\<close>

lemma spi_flash_read_forwards:
  assumes "\<not> protected fs filename"
    and "read_method onboard address len f = Some (r, f1, cs, events)"
  shows "\<exists>res. spi_flash_read onboard fs f filename address len = Some res
               \<and> flash_calls res = cs \<and> flash_after res = f1
               \<and> raised res = (case r of Inl e \<Rightarrow> Some e | Inr flash_data \<Rightarrow> None)"
  using assms by (cases r) (simp_all add: spi_flash_read_def open_wb_def)

lemma spi_flash_write_forwards:
  assumes "files fs filename = Some data"
    and "write_method onboard data address True f = Some (r, f1, cs, events)"
  shows "\<exists>res. spi_flash_write onboard fs f filename address = Some res
               \<and> flash_calls res = cs \<and> flash_after res = f1
               \<and> raised res = (case r of Inl e \<Rightarrow> Some e | Inr u \<Rightarrow> None)"
  using assms by (cases r) (simp_all add: spi_flash_write_def open_rb_read_def)

text \<open>
  With a positive chunk size the read loop comes back, whatever the transport does: it
  adds read requests to the requests issued so far.
\<close>

lemma read_chunks_returns:
  assumes "0 < chunk_max"
  shows "\<exists>r f' rs events'.
           read_chunks tr chunk_max bytes_total offset remaining f buf cs events =
             Some (r, f', cs @ rs, events')"
proof (induction "nat remaining" arbitrary: remaining offset f buf cs events rule: less_induct)
  case less
  show ?case
  proof (cases "0 < remaining")
    case False
    then show ?thesis by (subst read_chunks.simps) simp
  next
    case True
    let ?n = "min remaining chunk_max"
    let ?c = "Flash_Read offset ?n"
    let ?ev = "(bytes_total - (remaining - ?n), bytes_total)"
    from True assms have "0 < ?n" by simp
    with True have smaller: "nat (remaining - ?n) < nat remaining" by simp
    obtain x f1 where x: "read_request tr offset ?n f = (x, f1)"
      by (cases "read_request tr offset ?n f")
    show ?thesis
    proof (cases x)
      case (Inl e)
      with x True
      have "read_chunks tr chunk_max bytes_total offset remaining f buf cs events =
              Some (Inl e, f1, cs @ [?c], events)"
        by (subst read_chunks.simps) simp
      then show ?thesis by simp
    next
      case (Inr chunk)
      with x True
      have step: "read_chunks tr chunk_max bytes_total offset remaining f buf cs events =
                    read_chunks tr chunk_max bytes_total (offset + ?n) (remaining - ?n) f1
                      (buf @ chunk) (cs @ [?c]) (events @ [?ev])"
        by (subst read_chunks.simps) simp
      from less [OF smaller, of "offset + ?n" f1 "buf @ chunk" "cs @ [?c]" "events @ [?ev]"]
      obtain r f' rs events' where
        "read_chunks tr chunk_max bytes_total (offset + ?n) (remaining - ?n) f1
           (buf @ chunk) (cs @ [?c]) (events @ [?ev]) = Some (r, f', (cs @ [?c]) @ rs, events')"
        by blast
      with step show ?thesis
        by (intro exI [of _ r] exI [of _ f'] exI [of _ "?c # rs"] exI [of _ events']) simp
    qed
  qed
qed

lemma flash_write_out_of_range:
  assumes "max_flash_length cfg < address + int (length data)"
  shows "flash_write tr cfg data address erase_first f = Some (Inl OutOfRange, f, [], [])"
  using assms by (simp add: flash_write_def)

lemma flash_read_out_of_range:
  assumes "max_flash_length cfg < address + len"
  shows "flash_read tr cfg address len f = Some (Inl OutOfRange, f, [], [])"
  using assms by (simp add: flash_read_def)

text \<open>
  A write with the erase-first policy and a positive chunk size comes back. It has
  issued nothing when the request is out of range or empty; otherwise the erase of the
  target region is its first request and every later request is a write chunk; when the
  erase raises, the erase is its only request and its exception is the outcome.
\<close>

lemma flash_write_erase_first:
  assumes "0 < max_chunk cfg"
  shows "\<exists>r f' cs events.
           flash_write tr cfg data address True f = Some (r, f', cs, events)
           \<and> (cs = [] \<or> (\<exists>ws. cs = Flash_Erase address (int (length data)) # ws
                             \<and> (\<forall>c \<in> set ws. is_write_chunk c)))
           \<and> (cs = [] \<longleftrightarrow> max_flash_length cfg < address + int (length data) \<or> data = [])
           \<and> (\<not> max_flash_length cfg < address + int (length data) \<longrightarrow> data \<noteq> [] \<longrightarrow>
                erase_request tr address (int (length data)) f = (Inl e, f1) \<longrightarrow>
                r = Inl e \<and> cs = [Flash_Erase address (int (length data))])"
proof (cases "max_flash_length cfg < address + int (length data) \<or> data = []")
  case True
  then show ?thesis by (auto simp add: flash_write_def)
next
  case False
  obtain x g where x: "erase_request tr address (int (length data)) f = (x, g)"
    by (cases "erase_request tr address (int (length data)) f")
  show ?thesis
  proof (cases x)
    case (Inl e')
    with x False show ?thesis by (simp add: flash_write_def)
  next
    case (Inr u)
    with x False
    have fw: "flash_write tr cfg data address True f =
                write_chunks tr (max_chunk cfg) (int (length data)) address data g
                  [Flash_Erase address (int (length data))] []"
      by (simp add: flash_write_def)
    from write_chunks_returns [OF assms, of tr "int (length data)" address data g
           "[Flash_Erase address (int (length data))]" "[]"]
    obtain r f' ws events' where
      "write_chunks tr (max_chunk cfg) (int (length data)) address data g
         [Flash_Erase address (int (length data))] [] =
         Some (r, f', [Flash_Erase address (int (length data))] @ ws, events')"
      and "\<forall>c \<in> set ws. is_write_chunk c"
      by blast
    with fw x Inr False show ?thesis by simp
  qed
qed

text \<open>
  C6: a flash read or write request whose address plus length exceeds the configured
  maximum flash length is rejected with the out-of-range condition and no request has
  reached the flash transport. This holds of the two methods of the flash layer and of
  the two commands that call them: the read command when its file can be opened, the
  write command when its file holds the data.
\<close>

theorem flash_request_out_of_range:
  assumes "max_flash_length cfg < address + len"
  shows "flash_read tr cfg address len f = Some (Inl OutOfRange, f, [], [])
         \<and> (int (length data) = len \<longrightarrow>
              flash_write tr cfg data address erase_first f = Some (Inl OutOfRange, f, [], []))
         \<and> (\<not> protected fs filename \<longrightarrow>
              (\<exists>r. spi_flash_read (flash_layer tr cfg) fs f filename address len = Some r
                    \<and> raised r = Some OutOfRange \<and> flash_calls r = []
                    \<and> flash_after r = f))
         \<and> (files fs filename = Some data \<longrightarrow> int (length data) = len \<longrightarrow>
              (\<exists>r. spi_flash_write (flash_layer tr cfg) fs f filename address = Some r
                    \<and> raised r = Some OutOfRange \<and> flash_calls r = []
                    \<and> flash_after r = f))"
  using assms
  by (simp add: flash_read_out_of_range flash_write_out_of_range spi_flash_read_def
        spi_flash_write_def flash_layer_def open_wb_def open_rb_read_def)

theorem flash_request_out_of_range_witness:
  "max_flash_length cfg2 < 1 + MAX_FLASH_LENGTH
   \<and> \<not> protected host_files ''out.bin''
   \<and> (\<exists>r. spi_flash_read (flash_layer sim_flash cfg2) host_files [] ''out.bin''
              1 MAX_FLASH_LENGTH = Some r
            \<and> raised r = Some OutOfRange \<and> flash_calls r = [])
   \<and> max_flash_length cfg2 < 1048574 + 3
   \<and> files host_files ''fw.bin'' = Some [1, 2, 3]
   \<and> (\<exists>r. spi_flash_write (flash_layer sim_flash cfg2) host_files [] ''fw.bin'' 1048574 = Some r
            \<and> raised r = Some OutOfRange \<and> flash_calls r = [])"
proof -
  have h1: "max_flash_length cfg2 < 1 + MAX_FLASH_LENGTH"
    and h2: "max_flash_length cfg2 < 1048574 + 3"
    by (simp_all add: cfg2_def MAX_FLASH_LENGTH_def)
  have p: "\<not> protected host_files ''out.bin''"
    and d: "files host_files ''fw.bin'' = Some [1, 2, 3]"
    by (simp_all add: host_files_def)
  from flash_request_out_of_range [OF h1, of sim_flash "[]" "[]" True host_files "''out.bin''"]
       p
  have a: "\<exists>r. spi_flash_read (flash_layer sim_flash cfg2) host_files [] ''out.bin''
              1 MAX_FLASH_LENGTH = Some r
            \<and> raised r = Some OutOfRange \<and> flash_calls r = []"
    by auto
  from flash_request_out_of_range [OF h2, of sim_flash "[]" "[1, 2, 3]" True host_files "''fw.bin''"]
       d
  have b: "\<exists>r. spi_flash_write (flash_layer sim_flash cfg2) host_files [] ''fw.bin'' 1048574 = Some r
            \<and> raised r = Some OutOfRange \<and> flash_calls r = []"
    by auto
  from h1 h2 p d a b show ?thesis by simp
qed



text \<open>
  C7: \<^verbatim>\<open>spi_flash_write\<close> always asks for the erase-first policy: the command
  behaves as it would with a write method that ignores its \<^verbatim>\<open>erase_first\<close>
  argument and takes it to be true. With the flash layer and a positive chunk size,
  a write of the data of the file comes back; unless it issued nothing at all (a request
  out of range, or no data), its first request is the erase of the target region and
  every request after it is a write chunk; and when the erase raises, its exception is
  raised by the command and the erase is the only request issued: no write chunk.
\<close>

theorem spi_flash_write_erases_first:
  assumes "0 < max_chunk cfg" and "files fs filename = Some data"
  shows "spi_flash_write onboard fs f filename address =
           spi_flash_write
             (onboard\<lparr>write_method := (\<lambda>d a erase_first. write_method onboard d a True)\<rparr>)
             fs f filename address
         \<and> (\<exists>r. spi_flash_write (flash_layer tr cfg) fs f filename address = Some r
              \<and> (flash_calls r = []
                  \<or> (\<exists>ws. flash_calls r = Flash_Erase address (int (length data)) # ws
                           \<and> (\<forall>c \<in> set ws. is_write_chunk c)))
              \<and> (flash_calls r = [] \<longleftrightarrow>
                    max_flash_length cfg < address + int (length data) \<or> data = [])
              \<and> (\<not> max_flash_length cfg < address + int (length data) \<longrightarrow> data \<noteq> [] \<longrightarrow>
                    erase_request tr address (int (length data)) f = (Inl e, f1) \<longrightarrow>
                    raised r = Some e
                    \<and> flash_calls r = [Flash_Erase address (int (length data))]))"
proof
  show "spi_flash_write onboard fs f filename address =
          spi_flash_write
            (onboard\<lparr>write_method := (\<lambda>d a erase_first. write_method onboard d a True)\<rparr>)
            fs f filename address"
    by (simp add: spi_flash_write_def split: sum.split)
next
  from flash_write_erase_first [OF assms(1), of tr data address f e f1]
  obtain r g cs events where
    run: "flash_write tr cfg data address True f = Some (r, g, cs, events)"
    and shape: "cs = [] \<or> (\<exists>ws. cs = Flash_Erase address (int (length data)) # ws
                                \<and> (\<forall>c \<in> set ws. is_write_chunk c))"
    and none: "cs = [] \<longleftrightarrow> max_flash_length cfg < address + int (length data) \<or> data = []"
    and fails: "\<not> max_flash_length cfg < address + int (length data) \<longrightarrow> data \<noteq> [] \<longrightarrow>
                  erase_request tr address (int (length data)) f = (Inl e, f1) \<longrightarrow>
                  r = Inl e \<and> cs = [Flash_Erase address (int (length data))]"
    by blast
  let ?res = "(case r of
      Inl x \<Rightarrow> \<lparr>raised = Some x, fs_after = fs, flash_after = g,
                 logged = map print_progress_written events, flash_calls = cs\<rparr>
    | Inr u \<Rightarrow> \<lparr>raised = None, fs_after = fs, flash_after = g,
                 logged = map print_progress_written events @ [Log_Line []],
                 flash_calls = cs\<rparr>)"
  have cmd: "spi_flash_write (flash_layer tr cfg) fs f filename address = Some ?res"
    using assms(2) run
    by (simp add: spi_flash_write_def open_rb_read_def flash_layer_def split: sum.splits)
  have c: "flash_calls ?res = cs"
    by (simp split: sum.splits)
  have x: "raised ?res = Some e" if "r = Inl e"
    using that by simp
  show "\<exists>r. spi_flash_write (flash_layer tr cfg) fs f filename address = Some r
          \<and> (flash_calls r = []
              \<or> (\<exists>ws. flash_calls r = Flash_Erase address (int (length data)) # ws
                       \<and> (\<forall>c \<in> set ws. is_write_chunk c)))
          \<and> (flash_calls r = [] \<longleftrightarrow>
                max_flash_length cfg < address + int (length data) \<or> data = [])
          \<and> (\<not> max_flash_length cfg < address + int (length data) \<longrightarrow> data \<noteq> [] \<longrightarrow>
                erase_request tr address (int (length data)) f = (Inl e, f1) \<longrightarrow>
                raised r = Some e
                \<and> flash_calls r = [Flash_Erase address (int (length data))])"
  proof (intro exI [of _ ?res] conjI)
    show "spi_flash_write (flash_layer tr cfg) fs f filename address = Some ?res"
      by (rule cmd)
    show "flash_calls ?res = []
          \<or> (\<exists>ws. flash_calls ?res = Flash_Erase address (int (length data)) # ws
                   \<and> (\<forall>c \<in> set ws. is_write_chunk c))"
      unfolding c by (rule shape)
    show "flash_calls ?res = [] \<longleftrightarrow>
            max_flash_length cfg < address + int (length data) \<or> data = []"
      unfolding c by (rule none)
    show "\<not> max_flash_length cfg < address + int (length data) \<longrightarrow> data \<noteq> [] \<longrightarrow>
            erase_request tr address (int (length data)) f = (Inl e, f1) \<longrightarrow>
            raised ?res = Some e
            \<and> flash_calls ?res = [Flash_Erase address (int (length data))]"
      unfolding c using fails x by blast
  qed
qed

theorem spi_flash_write_erases_first_witness:
  "0 < max_chunk cfg2 \<and> files host_files ''fw.bin'' = Some [1, 2, 3]
   \<and> map_option flash_calls
        (spi_flash_write (flash_layer sim_flash cfg2) host_files [] ''fw.bin'' 0) =
       Some [Flash_Erase 0 3, Flash_Write 0 [1, 2], Flash_Write 2 [3]]
   \<and> erase_request erase_fails 0 3 [] = (Inl (TransportFailure ''erase''), [])
   \<and> (\<exists>r. spi_flash_write (flash_layer erase_fails cfg2) host_files [] ''fw.bin'' 0 = Some r
            \<and> raised r = Some (TransportFailure ''erase'')
            \<and> flash_calls r = [Flash_Erase 0 3])"
proof -
  have h1: "0 < max_chunk cfg2"
    and h2: "files host_files ''fw.bin'' = Some [1, 2, 3]"
    by (simp_all add: cfg2_def host_files_def)
  have inr: "\<not> max_flash_length cfg2 < 0 + int (length [1, 2, 3 :: int])"
    by (simp add: cfg2_def MAX_FLASH_LENGTH_def)
  have er: "erase_request erase_fails 0 3 [] = (Inl (TransportFailure ''erase''), [])"
    by (simp add: erase_fails_def)
  have run: "map_option flash_calls
        (spi_flash_write (flash_layer sim_flash cfg2) host_files [] ''fw.bin'' 0) =
       Some [Flash_Erase 0 3, Flash_Write 0 [1, 2], Flash_Write 2 [3]]"
    by (simp add: spi_flash_write_def open_rb_read_def host_files_def flash_layer_def
          flash_write_def cfg2_def MAX_FLASH_LENGTH_def sim_flash_def write_chunks.simps
          store_at_def numeral_2_eq_2)
  from spi_flash_write_erases_first
         [OF h1 h2, of "flash_layer sim_flash cfg2" "[]" 0 erase_fails
            "TransportFailure ''erase''" "[]"]
       inr er
  have b: "\<exists>r. spi_flash_write (flash_layer erase_fails cfg2) host_files [] ''fw.bin'' 0 = Some r
            \<and> raised r = Some (TransportFailure ''erase'')
            \<and> flash_calls r = [Flash_Erase 0 3]"
    by auto
  from h1 h2 run er b show ?thesis by simp
qed


end
